theory Spec2Isabelle
  imports Complex_Main "HOL-Library.AList"
begin

chapter \<open>Bankify: the account and bank classes of bank_management.py\<close>

text \<open>
  The module has two classes. An \<open>Account\<close> object carries a number, the holder's name, a
  type label and a balance; a \<open>Bank\<close> object carries a name and a dictionary from account
  numbers to \<open>Account\<close> objects. Accounts are mutable objects that the dictionary and the
  callers share by reference, so the model keeps an explicit store of objects and lets the
  dictionary hold references into it.

  Amounts are Python floats, with their rounding, their infinities and their not-a-number.
\<close>

section \<open>Python floats\<close>

text \<open>
  The amounts of the program are Python floats: the docstrings say so and the callers pass
  the result of \<open>float(...)\<close>, which also reads \<open>inf\<close> and \<open>nan\<close>. A float is an IEEE 754
  binary64 value: a finite number (given here by its exact rational value, with the negative
  zero apart), an infinity, or not-a-number. \<open>Finite x\<close> is meant for an \<open>x\<close> that binary64
  has; every operation below returns such values.
\<close>

datatype pyfloat = Finite rat | NegZero | PosInf | NegInf | NaN

text \<open>The number of binary digits of a positive integer.\<close>

function bit_length :: "int \<Rightarrow> int" where
  "bit_length n = (if n \<le> 0 then 0 else 1 + bit_length (n div 2))"
  by pat_completeness auto
termination
  by (relation "measure nat") auto

declare bit_length.simps [simp del]

text \<open>For positive \<open>x\<close>, the exponent \<open>e\<close> with \<open>2 ^ e \<le> x < 2 ^ (e + 1)\<close>.\<close>

definition floor_log2 :: "rat \<Rightarrow> int" where
  "floor_log2 x =
     (let (p, q) = quotient_of x;
          e = bit_length p - bit_length q
      in if 2 powi e \<le> x then e else e - 1)"

definition round_half_even :: "rat \<Rightarrow> int" where
  "round_half_even y =
     (let f = \<lfloor>y\<rfloor>; d = y - of_int f
      in if d < 1 / 2 then f else if 1 / 2 < d then f + 1 else if even f then f else f + 1)"

text \<open>
  Rounding to nearest, ties to even: a binary64 value has 53 significant binary digits and
  no digit below \<open>2 ^ - 1074\<close>; what rounds to \<open>2 ^ 1024\<close> or more overflows to infinity.
\<close>

definition round_positive :: "rat \<Rightarrow> pyfloat" where
  "round_positive x =
     (let u = max (floor_log2 x - 52) (- 1074);
          r = of_int (round_half_even (x / 2 powi u)) * 2 powi u
      in if 2 powi 1024 \<le> r then PosInf else Finite r)"

fun negate :: "pyfloat \<Rightarrow> pyfloat" where
  "negate (Finite x) = (if x = 0 then NegZero else Finite (- x))"
| "negate NegZero = Finite 0"
| "negate PosInf = NegInf"
| "negate NegInf = PosInf"
| "negate NaN = NaN"

definition round64 :: "rat \<Rightarrow> pyfloat" where
  "round64 x =
     (if x = 0 then Finite 0
      else if 0 < x then round_positive x
      else negate (round_positive (- x)))"

text \<open>
  The number a float stands for, and its place among the others: below, at or above all
  finite numbers. Not-a-number has no place and compares false with everything.
\<close>

fun exact :: "pyfloat \<Rightarrow> rat" where
  "exact (Finite x) = x"
| "exact other = 0"

fun place :: "pyfloat \<Rightarrow> int" where
  "place NegInf = - 1"
| "place PosInf = 1"
| "place other = 0"

instantiation pyfloat :: "{zero, plus, minus, ord}"
begin

definition zero_pyfloat :: pyfloat where
  "zero_pyfloat = Finite 0"

fun plus_pyfloat :: "pyfloat \<Rightarrow> pyfloat \<Rightarrow> pyfloat" where
  "plus_pyfloat NaN b = NaN"
| "plus_pyfloat a NaN = NaN"
| "plus_pyfloat PosInf NegInf = NaN"
| "plus_pyfloat NegInf PosInf = NaN"
| "plus_pyfloat PosInf b = PosInf"
| "plus_pyfloat a PosInf = PosInf"
| "plus_pyfloat NegInf b = NegInf"
| "plus_pyfloat a NegInf = NegInf"
| "plus_pyfloat NegZero b = b"
| "plus_pyfloat a NegZero = a"
| "plus_pyfloat (Finite x) (Finite y) = round64 (x + y)"

definition minus_pyfloat :: "pyfloat \<Rightarrow> pyfloat \<Rightarrow> pyfloat" where
  "minus_pyfloat a b = a + negate b"

definition less_pyfloat :: "pyfloat \<Rightarrow> pyfloat \<Rightarrow> bool" where
  "less_pyfloat a b \<longleftrightarrow>
     a \<noteq> NaN \<and> b \<noteq> NaN \<and> (place a < place b \<or> place a = place b \<and> exact a < exact b)"

definition less_eq_pyfloat :: "pyfloat \<Rightarrow> pyfloat \<Rightarrow> bool" where
  "less_eq_pyfloat a b \<longleftrightarrow>
     a \<noteq> NaN \<and> b \<noteq> NaN \<and> (place a < place b \<or> place a = place b \<and> exact a \<le> exact b)"

instance ..

end

section \<open>The classes\<close>

subsection \<open>Data\<close>

record Account =
  account_number :: int
  name :: string
  account_type :: string
  balance :: pyfloat

definition Account_init :: "int \<Rightarrow> string \<Rightarrow> string \<Rightarrow> pyfloat \<Rightarrow> Account" where
  "Account_init number holder kind amount =
     \<lparr>account_number = number, name = holder, account_type = kind, balance = amount\<rparr>"

text \<open>A reference is the position of an object in the store; objects are never freed.\<close>

type_synonym ref = nat

text \<open>
  The dictionary is an association list in insertion order, as a Python \<open>dict\<close> is:
  \<open>AList.update\<close> overwrites in place or appends, \<open>AList.delete\<close> removes the key.
  The field \<open>bank_name\<close> is the attribute \<open>name\<close> of the class \<open>Bank\<close>.
\<close>

record Bank =
  bank_name :: string
  accounts :: "(int \<times> ref) list"

definition Bank_init :: "string \<Rightarrow> Bank" where
  "Bank_init nm = \<lparr>bank_name = nm, accounts = []\<rparr>"

text \<open>
  What the methods print. Each constructor stands for one \<open>print\<close> of the source and
  carries the values its format string shows.
\<close>

datatype message =
    Deposited pyfloat pyfloat
      \<comment> \<open>Successfully deposited (amount). New balance: (balance)\<close>
  | InvalidDepositAmount
      \<comment> \<open>Invalid deposit amount. Please enter a positive value.\<close>
  | Withdrew pyfloat pyfloat
      \<comment> \<open>Successfully withdrew (amount). New balance: (balance)\<close>
  | InsufficientFunds
      \<comment> \<open>Insufficient funds for this withdrawal.\<close>
  | InvalidWithdrawalAmount
      \<comment> \<open>Invalid withdrawal amount. Please enter a positive value.\<close>
  | NegativeInitialDeposit
      \<comment> \<open>Initial deposit cannot be negative.\<close>
  | AccountCreated string int
      \<comment> \<open>Account created successfully for (name) with Account Number: (number)\<close>
  | AccountClosed int
      \<comment> \<open>Account (number) has been successfully closed.\<close>
  | AccountNotFound
      \<comment> \<open>Account not found.\<close>
  | NoAccounts
      \<comment> \<open>No accounts in the bank.\<close>
  | ListHeader
      \<comment> \<open>--- All Bank Accounts ---\<close>
  | Details int string string pyfloat
      \<comment> \<open>the four lines of \<open>__str__\<close>: number, holder name, type, balance\<close>
  | Separator
      \<comment> \<open>-------------------------\<close>

text \<open>
  The world of a run: the store of \<open>Account\<close> objects, the one \<open>Bank\<close> object, and the
  random generator, which is the sequence \<open>draws\<close> of raw values it delivers together with the
  count \<open>drawn\<close> of those already used.
\<close>

record world =
  heap :: "Account list"
  bank :: Bank
  draws :: "nat \<Rightarrow> int"
  drawn :: nat

definition start :: "string \<Rightarrow> (nat \<Rightarrow> int) \<Rightarrow> world" where
  "start nm ds = \<lparr>heap = [], bank = Bank_init nm, draws = ds, drawn = 0\<rparr>"

subsection \<open>Methods of Account\<close>

text \<open>
  A method takes \<open>self\<close> and gives back the returned value, the printed lines and the
  updated \<open>self\<close>.
\<close>

definition deposit :: "pyfloat \<Rightarrow> Account \<Rightarrow> bool \<times> message list \<times> Account" where
  "deposit amount self =
     (if amount > 0 then
        (let self' = self\<lparr>balance := balance self + amount\<rparr>
         in (True, [Deposited amount (balance self')], self'))
      else (False, [InvalidDepositAmount], self))"

definition withdraw :: "pyfloat \<Rightarrow> Account \<Rightarrow> bool \<times> message list \<times> Account" where
  "withdraw amount self =
     (if 0 < amount \<and> amount \<le> balance self then
        (let self' = self\<lparr>balance := balance self - amount\<rparr>
         in (True, [Withdrew amount (balance self')], self'))
      else if amount > balance self then (False, [InsufficientFunds], self)
      else (False, [InvalidWithdrawalAmount], self))"

definition get_balance :: "Account \<Rightarrow> pyfloat" where
  "get_balance self = balance self"

definition str :: "Account \<Rightarrow> message" where
  "str self = Details (account_number self) (name self) (account_type self) (balance self)"

subsection \<open>Methods of Bank\<close>

text \<open>
  \<open>random.randint(a, b)\<close> returns some integer \<open>N\<close> with \<open>a \<le> N \<le> b\<close>. The model
  reduces a raw draw into that interval, so every value of the interval can come out and
  nothing else can.
\<close>

definition randint :: "int \<Rightarrow> int \<Rightarrow> int \<Rightarrow> int" where
  "randint a b raw = a + raw mod (b - a + 1)"

text \<open>
  The \<open>while True\<close> loop of \<open>_generate_account_number\<close>: it returns the first sample that is
  not a key of the dictionary, together with the new count of used draws. When no sample
  is ever free the loop does not return, which is the value \<open>None\<close>.
\<close>

partial_function (option) generate_account_number ::
  "Bank \<Rightarrow> (nat \<Rightarrow> int) \<Rightarrow> nat \<Rightarrow> (int \<times> nat) option" where
  "generate_account_number self ds i =
     (if randint 1000000000 9999999999 (ds i) \<notin> fst ` set (accounts self)
      then Some (randint 1000000000 9999999999 (ds i), Suc i)
      else generate_account_number self ds (Suc i))"

declare generate_account_number.simps [code]

text \<open>
  \<open>create_account\<close> returns the new object (a reference) or Python's \<open>None\<close>; the outer
  option is \<open>None\<close> when the number generator does not return.
\<close>

definition create_account ::
  "string \<Rightarrow> string \<Rightarrow> pyfloat \<Rightarrow> world \<Rightarrow> (ref option \<times> message list \<times> world) option" where
  "create_account holder kind initial_deposit w =
     (if initial_deposit < 0 then Some (None, [NegativeInitialDeposit], w)
      else
        (case generate_account_number (bank w) (draws w) (drawn w) of
           None \<Rightarrow> None
         | Some (number, used) \<Rightarrow>
             (let new_account = Account_init number holder kind initial_deposit;
                  r = length (heap w)
              in Some (Some r, [AccountCreated holder number],
                   w\<lparr>heap := heap w @ [new_account],
                     bank := (bank w)\<lparr>accounts := AList.update number r (accounts (bank w))\<rparr>,
                     drawn := used\<rparr>))))"

definition find_account :: "int \<Rightarrow> world \<Rightarrow> ref option" where
  "find_account number w = map_of (accounts (bank w)) number"

definition close_account :: "int \<Rightarrow> world \<Rightarrow> bool \<times> message list \<times> world" where
  "close_account number w =
     (if number \<in> fst ` set (accounts (bank w)) then
        (True, [AccountClosed number],
         w\<lparr>bank := (bank w)\<lparr>accounts := AList.delete number (accounts (bank w))\<rparr>\<rparr>)
      else (False, [AccountNotFound], w))"

text \<open>The object behind a reference, if the reference was ever handed out.\<close>

definition deref :: "world \<Rightarrow> ref \<Rightarrow> Account option" where
  "deref w r = (if r < length (heap w) then Some (heap w ! r) else None)"

definition list_all_accounts :: "world \<Rightarrow> message list" where
  "list_all_accounts w =
     (if accounts (bank w) = [] then [NoAccounts]
      else ListHeader #
        concat (map (\<lambda>(number, r). case deref w r of
                                     None \<Rightarrow> []
                                   | Some account \<Rightarrow> [str account, Separator])
                    (accounts (bank w))))"

subsection \<open>Calls on objects and sequences of calls\<close>

text \<open>
  Calling a method on the object behind \<open>r\<close> writes the updated object back to the same
  place of the store. A reference that was never handed out denotes no object: there is no
  such call, and the result is \<open>None\<close>.
\<close>

definition call ::
  "ref \<Rightarrow> (Account \<Rightarrow> 'r \<times> message list \<times> Account) \<Rightarrow> world \<Rightarrow>
     ('r \<times> message list \<times> world) option" where
  "call r meth w =
     (case deref w r of
        None \<Rightarrow> None
      | Some self \<Rightarrow>
          (case meth self of
             (res, out, self') \<Rightarrow> Some (res, out, w\<lparr>heap := (heap w)[r := self']\<rparr>)))"

datatype op =
    CreateAccount string string pyfloat
  | Deposit ref pyfloat
  | Withdraw ref pyfloat
  | GetBalance ref
  | FindAccount int
  | CloseAccount int
  | ListAllAccounts

text \<open>
  The world after one operation; \<open>None\<close> when the operation gives no next world.
  \<open>find_account\<close> and \<open>list_all_accounts\<close> only read the bank, so the world after them is
  the world before them.
\<close>

fun exec :: "op \<Rightarrow> world \<Rightarrow> world option" where
  "exec (CreateAccount holder kind initial_deposit) w =
     map_option (\<lambda>(res, out, w'). w') (create_account holder kind initial_deposit w)"
| "exec (Deposit r amount) w = map_option (\<lambda>(res, out, w'). w') (call r (deposit amount) w)"
| "exec (Withdraw r amount) w = map_option (\<lambda>(res, out, w'). w') (call r (withdraw amount) w)"
| "exec (GetBalance r) w =
     map_option (\<lambda>(res, out, w'). w') (call r (\<lambda>self. (get_balance self, [], self)) w)"
| "exec (FindAccount number) w = Some w"
| "exec (CloseAccount number) w = (case close_account number w of (res, out, w') \<Rightarrow> Some w')"
| "exec ListAllAccounts w = Some w"

fun run :: "op list \<Rightarrow> world \<Rightarrow> world option" where
  "run [] w = Some w"
| "run (x # xs) w = (case exec x w of None \<Rightarrow> None | Some w' \<Rightarrow> run xs w')"

subsection \<open>Invariants of the world\<close>

text \<open>
  No object of the store has a balance below zero. A balance that is not-a-number is not
  below zero, and it is not at least zero either.
\<close>

definition balances_ok :: "world \<Rightarrow> bool" where
  "balances_ok w = list_all (\<lambda>self. \<not> balance self < 0) (heap w)"

text \<open>
  Every entry of the dictionary leads to an object of the store, and the key is the
  \<open>account_number\<close> of that object.
\<close>

definition keys_match :: "world \<Rightarrow> bool" where
  "keys_match w =
     list_all (\<lambda>(number, r). case deref w r of
                                  None \<Rightarrow> False
                                | Some account \<Rightarrow> account_number account = number)
       (accounts (bank w))"

subsection \<open>A concrete run\<close>

text \<open>
  A generator whose first two raw draws are equal, so that the second account creation
  meets an occupied number and samples again.
\<close>

definition demo_draws :: "nat \<Rightarrow> int" where
  "demo_draws i = (if i < 2 then 0 else int i)"

definition alice :: Account where
  "alice = \<lparr>account_number = 1000000000, name = ''Alice'', account_type = ''Savings'',
             balance = Finite 100\<rparr>"

definition bob :: Account where
  "bob = \<lparr>account_number = 1000000002, name = ''Bob'', account_type = ''Checking'',
           balance = Finite 20\<rparr>"

text \<open>
  The world that the operations \<open>demo_ops\<close> below reach from a new bank: both accounts are
  open, and the deposits and withdrawals on the first one have brought it back to 100.
\<close>

definition demo_world :: world where
  "demo_world =
     \<lparr>heap = [alice, bob],
      bank = \<lparr>bank_name = ''Bankify'', accounts = [(1000000000, 0), (1000000002, 1)]\<rparr>,
      draws = demo_draws, drawn = 3\<rparr>"

definition demo_ops :: "op list" where
  "demo_ops =
     [CreateAccount ''Alice'' ''Savings'' (Finite 100),
      CreateAccount ''Bob'' ''Checking'' (Finite 20),
      Deposit 0 (Finite 50), Withdraw 0 (Finite 200), Withdraw 0 (Finite 150),
      Deposit 0 (Finite 100),
      GetBalance 1, FindAccount 1000000002, ListAllAccounts]"

text \<open>
  An account whose balance is so large that the floats next to it are 2 apart.
\<close>

definition whale :: Account where
  "whale = \<lparr>account_number = 1000000000, name = ''Whale'', account_type = ''Savings'',
             balance = Finite 10000000000000000\<rparr>"

definition whale_ops :: "op list" where
  "whale_ops = [CreateAccount ''Whale'' ''Savings'' (Finite 10000000000000000)]"

definition whale_world :: world where
  "whale_world =
     \<lparr>heap = [whale],
      bank = \<lparr>bank_name = ''Bankify'', accounts = [(1000000000, 0)]\<rparr>,
      draws = demo_draws, drawn = 1\<rparr>"

text \<open>
  A run with infinite amounts, as \<open>float('inf')\<close> gives them, and the world it reaches.
\<close>

definition infinite_ops :: "op list" where
  "infinite_ops =
     [CreateAccount ''Alice'' ''Savings'' (Finite 0), Deposit 0 PosInf, Withdraw 0 PosInf]"

definition lost :: Account where
  "lost = \<lparr>account_number = 1000000000, name = ''Alice'', account_type = ''Savings'',
            balance = NaN\<rparr>"

definition lost_world :: world where
  "lost_world =
     \<lparr>heap = [lost],
      bank = \<lparr>bank_name = ''Bankify'', accounts = [(1000000000, 0)]\<rparr>,
      draws = demo_draws, drawn = 1\<rparr>"

section \<open>Properties\<close>

subsection \<open>Comparisons of floats\<close>

lemma not_positive: "a \<le> (0 :: pyfloat) \<Longrightarrow> \<not> 0 < a"
  by (cases a) (auto simp: less_pyfloat_def less_eq_pyfloat_def zero_pyfloat_def)

lemma not_negative: "(0 :: pyfloat) \<le> a \<Longrightarrow> \<not> a < 0"
  by (cases a) (auto simp: less_pyfloat_def less_eq_pyfloat_def zero_pyfloat_def)

lemma less_not_less_eq: "(b :: pyfloat) < a \<Longrightarrow> \<not> a \<le> b"
  by (cases a; cases b) (auto simp: less_pyfloat_def less_eq_pyfloat_def)

lemma not_above: "a \<le> (0 :: pyfloat) \<Longrightarrow> \<not> b < 0 \<Longrightarrow> \<not> b < a"
  by (cases a; cases b) (auto simp: less_pyfloat_def less_eq_pyfloat_def zero_pyfloat_def)

subsection \<open>Rounding keeps the sign\<close>

lemma round_half_even_nonneg: "0 \<le> y \<Longrightarrow> 0 \<le> round_half_even y"
  by (auto simp: round_half_even_def Let_def)

lemma round_positive_not_negative:
  assumes "0 < x"
  shows "\<not> round_positive x < 0"
proof -
  define u where "u = max (floor_log2 x - 52) (- 1074)"
  define r :: rat where "r = of_int (round_half_even (x / 2 powi u)) * 2 powi u"
  have "(0 :: rat) < 2 powi u" by (simp add: zero_less_power_int)
  with assms have "0 \<le> x / 2 powi u" by simp
  then have "0 \<le> round_half_even (x / 2 powi u)" by (rule round_half_even_nonneg)
  with \<open>0 < 2 powi u\<close> have "0 \<le> r" by (simp add: r_def)
  moreover have "round_positive x = (if 2 powi 1024 \<le> r then PosInf else Finite r)"
    by (simp add: round_positive_def Let_def u_def r_def)
  ultimately show ?thesis by (simp add: less_pyfloat_def zero_pyfloat_def)
qed

lemma round64_not_negative: "0 \<le> x \<Longrightarrow> \<not> round64 x < 0"
  using round_positive_not_negative [of x]
  by (cases "x = 0") (auto simp: round64_def less_pyfloat_def zero_pyfloat_def)

lemma plus_not_negative:
  assumes "\<not> b < (0 :: pyfloat)" and "0 < a"
  shows "\<not> b + a < 0"
proof (cases b)
  case (Finite x)
  show ?thesis
  proof (cases a)
    case (Finite y)
    with assms \<open>b = Finite x\<close> have "0 \<le> x + y"
      by (simp add: less_pyfloat_def zero_pyfloat_def)
    then show ?thesis using \<open>b = Finite x\<close> Finite by (simp add: round64_not_negative)
  qed (use assms \<open>b = Finite x\<close> in \<open>auto simp: less_pyfloat_def zero_pyfloat_def\<close>)
qed (use assms in \<open>cases a; auto simp: less_pyfloat_def zero_pyfloat_def\<close>)+

lemma minus_not_negative:
  assumes "(0 :: pyfloat) < a" and "a \<le> b"
  shows "\<not> b - a < 0"
proof (cases a)
  case (Finite y)
  with assms(1) have y: "0 < y" by (simp add: less_pyfloat_def zero_pyfloat_def)
  show ?thesis
  proof (cases b)
    case (Finite x)
    with assms(2) \<open>a = Finite y\<close> have "0 \<le> x + - y" by (simp add: less_eq_pyfloat_def)
    then show ?thesis using \<open>a = Finite y\<close> Finite y
      by (simp add: minus_pyfloat_def round64_not_negative)
  qed (use assms \<open>a = Finite y\<close> y in
        \<open>auto simp: minus_pyfloat_def less_pyfloat_def less_eq_pyfloat_def zero_pyfloat_def\<close>)
qed (use assms in
      \<open>cases b; auto simp: minus_pyfloat_def less_pyfloat_def less_eq_pyfloat_def zero_pyfloat_def\<close>)+

lemma plus_finite: "Finite x + Finite y = round64 (x + y)"
  by simp

lemma minus_finite: "y \<noteq> 0 \<Longrightarrow> Finite x - Finite y = round64 (x - y)"
  by (simp add: minus_pyfloat_def)

subsection \<open>The account number generator\<close>

lemma randint_range:
  "1000000000 \<le> randint 1000000000 9999999999 raw \<and> randint 1000000000 9999999999 raw \<le> 9999999999"
  by (simp add: randint_def)

lemma generate_account_number_first_free:
  assumes "randint 1000000000 9999999999 (ds (i + k)) \<notin> fst ` set (accounts self)"
    and "\<forall>j<k. randint 1000000000 9999999999 (ds (i + j)) \<in> fst ` set (accounts self)"
  shows "generate_account_number self ds i =
           Some (randint 1000000000 9999999999 (ds (i + k)), Suc (i + k))"
  using assms
proof (induction k arbitrary: i)
  case 0
  then show ?case by (subst generate_account_number.simps) simp
next
  case (Suc k)
  from Suc.prems(1) have free: "randint 1000000000 9999999999 (ds (Suc i + k)) \<notin> fst ` set (accounts self)"
    by simp
  have taken: "\<forall>j<k. randint 1000000000 9999999999 (ds (Suc i + j)) \<in> fst ` set (accounts self)"
  proof (intro allI impI)
    fix j assume "j < k"
    then have "Suc j < Suc k" by simp
    with Suc.prems(2) have "randint 1000000000 9999999999 (ds (i + Suc j)) \<in> fst ` set (accounts self)"
      by blast
    then show "randint 1000000000 9999999999 (ds (Suc i + j)) \<in> fst ` set (accounts self)" by simp
  qed
  from Suc.prems(2) have here: "randint 1000000000 9999999999 (ds i) \<in> fst ` set (accounts self)"
    by (metis add.right_neutral zero_less_Suc)
  have "generate_account_number self ds i = generate_account_number self ds (Suc i)"
    using here by (subst generate_account_number.simps) simp
  with Suc.IH[OF free taken] show ?case by simp
qed

lemma generate_account_number_some_free:
  assumes "generate_account_number self ds i = Some y"
  shows "\<exists>k. randint 1000000000 9999999999 (ds (i + k)) \<notin> fst ` set (accounts self)"
proof -
  define P where "P = (\<lambda>(self::Bank) (ds::nat \<Rightarrow> int) (i::nat) (y::int \<times> nat).
    \<exists>k. randint 1000000000 9999999999 (ds (i + k)) \<notin> fst ` set (accounts self))"
  have "P self ds i y"
  proof (rule generate_account_number.raw_induct [of P, OF _ assms])
    fix f self ds i y
    assume IH: "\<And>self ds i y. f self ds i = Some y \<Longrightarrow> P self ds i y"
      and eq: "(if randint 1000000000 9999999999 (ds i) \<notin> fst ` set (accounts self)
                then Some (randint 1000000000 9999999999 (ds i), Suc i)
                else f self ds (Suc i)) = Some y"
    show "P self ds i y"
    proof (cases "randint 1000000000 9999999999 (ds i) \<notin> fst ` set (accounts self)")
      case True
      then have "randint 1000000000 9999999999 (ds (i + 0)) \<notin> fst ` set (accounts self)" by simp
      then show ?thesis unfolding P_def by blast
    next
      case False
      with eq have "f self ds (Suc i) = Some y" by simp
      from IH[OF this] obtain k
        where "randint 1000000000 9999999999 (ds (Suc i + k)) \<notin> fst ` set (accounts self)"
        unfolding P_def by blast
      then have "randint 1000000000 9999999999 (ds (i + Suc k)) \<notin> fst ` set (accounts self)" by simp
      then show ?thesis unfolding P_def by blast
    qed
  qed
  then show ?thesis by (simp add: P_def)
qed

lemma generate_account_number_None:
  "(\<forall>k. randint 1000000000 9999999999 (ds (i + k)) \<in> fst ` set (accounts self)) \<Longrightarrow>
     generate_account_number self ds i = None"
  using generate_account_number_some_free [of self ds i] by (cases "generate_account_number self ds i") auto

subsection \<open>The methods of Account keep the identity and the sign of the balance\<close>

lemma deposit_balances:
  "\<not> balance self < 0 \<Longrightarrow> \<not> balance (snd (snd (deposit amount self))) < 0"
  by (simp add: deposit_def Let_def plus_not_negative)

lemma withdraw_balances:
  "\<not> balance self < 0 \<Longrightarrow> \<not> balance (snd (snd (withdraw amount self))) < 0"
  by (simp add: withdraw_def Let_def minus_not_negative)

lemma deposit_identity:
  "account_number (snd (snd (deposit amount self))) = account_number self \<and>
   name (snd (snd (deposit amount self))) = name self \<and>
   account_type (snd (snd (deposit amount self))) = account_type self"
  by (simp add: deposit_def Let_def)

lemma withdraw_identity:
  "account_number (snd (snd (withdraw amount self))) = account_number self \<and>
   name (snd (snd (withdraw amount self))) = name self \<and>
   account_type (snd (snd (withdraw amount self))) = account_type self"
  by (simp add: withdraw_def Let_def)

subsection \<open>Facts about the dictionary\<close>

lemma update_entries: "set (AList.update k v al) \<subseteq> insert (k, v) (set al)"
  by (induction al) auto

lemma delete_entries: "set (AList.delete k al) \<subseteq> set al"
  by (induction al) auto

lemma update_fresh: "k \<notin> fst ` set al \<Longrightarrow> AList.update k v al = al @ [(k, v)]"
  by (induction al) auto

lemma map_of_fresh_append: "k \<notin> fst ` set al \<Longrightarrow> map_of (al @ [(k, v)]) k = Some v"
  by (induction al) auto

subsection \<open>What a call changes\<close>

lemma call_world:
  assumes "call r meth w = Some (res, out, w')"
  shows "\<exists>self. deref w r = Some self \<and> res = fst (meth self) \<and> out = fst (snd (meth self)) \<and>
           w' = w\<lparr>heap := (heap w)[r := snd (snd (meth self))]\<rparr>"
  using assms by (auto simp: call_def split: option.splits prod.splits)

lemma create_account_world:
  assumes "create_account holder kind initial_deposit w = Some (res, out, w')"
  shows "w' = w \<or>
         (\<not> initial_deposit < 0 \<and>
          (\<exists>number used. w' = w\<lparr>heap := heap w @ [Account_init number holder kind initial_deposit],
               bank := (bank w)\<lparr>accounts := AList.update number (length (heap w)) (accounts (bank w))\<rparr>,
               drawn := used\<rparr>))"
  using assms by (auto simp: create_account_def Let_def split: if_splits option.splits)

subsection \<open>No operation takes a balance below zero\<close>

lemma call_balances_ok:
  assumes inv: "balances_ok w" and step: "call r meth w = Some (res, out, w')"
    and meth: "\<And>self. \<not> balance self < 0 \<Longrightarrow> \<not> balance (snd (snd (meth self))) < 0"
  shows "balances_ok w'"
proof -
  from call_world[OF step] obtain self where self: "deref w r = Some self"
    and w': "w' = w\<lparr>heap := (heap w)[r := snd (snd (meth self))]\<rparr>" by blast
  from self have r: "r < length (heap w)" and s: "self = heap w ! r"
    by (auto simp: deref_def split: if_splits)
  from inv r s have "\<not> balance self < 0" by (simp add: balances_ok_def list_all_iff)
  then have new: "\<not> balance (snd (snd (meth self))) < 0" by (rule meth)
  have "set ((heap w)[r := snd (snd (meth self))]) \<subseteq> insert (snd (snd (meth self))) (set (heap w))"
    by (rule set_update_subset_insert)
  with inv new show ?thesis unfolding w' balances_ok_def list_all_iff by auto
qed

lemma create_account_balances_ok:
  assumes "balances_ok w" and "create_account holder kind initial_deposit w = Some (res, out, w')"
  shows "balances_ok w'"
  using create_account_world[OF assms(2)] assms(1)
  by (auto simp: balances_ok_def list_all_iff Account_init_def)

lemma close_account_heap: "heap (snd (snd (close_account number w))) = heap w"
  by (simp add: close_account_def)

lemma exec_balances_ok:
  assumes "balances_ok w" and "exec x w = Some w'"
  shows "balances_ok w'"
proof (cases x)
  case (CreateAccount holder kind initial_deposit)
  with assms(2) obtain res out where "create_account holder kind initial_deposit w = Some (res, out, w')"
    by auto
  from create_account_balances_ok[OF assms(1) this] show ?thesis .
next
  case (Deposit r amount)
  with assms(2) obtain res out where "call r (deposit amount) w = Some (res, out, w')" by auto
  from call_balances_ok[OF assms(1) this] show ?thesis by (simp add: deposit_balances)
next
  case (Withdraw r amount)
  with assms(2) obtain res out where "call r (withdraw amount) w = Some (res, out, w')" by auto
  from call_balances_ok[OF assms(1) this] show ?thesis by (simp add: withdraw_balances)
next
  case (GetBalance r)
  with assms(2) obtain res out
    where "call r (\<lambda>self. (get_balance self, [], self)) w = Some (res, out, w')" by auto
  from call_balances_ok[OF assms(1) this] show ?thesis by simp
next
  case (FindAccount number)
  with assms show ?thesis by simp
next
  case (CloseAccount number)
  with assms(2) have "w' = snd (snd (close_account number w))" by (auto split: prod.splits)
  with assms(1) show ?thesis by (simp add: balances_ok_def list_all_iff close_account_heap)
next
  case ListAllAccounts
  with assms show ?thesis by simp
qed

lemma run_balances_ok: "balances_ok w \<Longrightarrow> run ops w = Some w' \<Longrightarrow> balances_ok w'"
proof (induction ops arbitrary: w)
  case Nil
  then show ?case by simp
next
  case (Cons x xs)
  from Cons.prems(2) obtain v where v: "exec x w = Some v" and rest: "run xs v = Some w'"
    by (auto split: option.splits)
  from exec_balances_ok[OF Cons.prems(1) v] have "balances_ok v" .
  from Cons.IH[OF this rest] show ?case .
qed

lemma start_balances_ok: "balances_ok (start nm ds)"
  by (simp add: balances_ok_def list_all_iff start_def)

subsection \<open>Every operation keeps the keys matching\<close>

lemma call_keys_match:
  assumes inv: "keys_match w" and step: "call r meth w = Some (res, out, w')"
    and meth: "\<And>self. account_number (snd (snd (meth self))) = account_number self"
  shows "keys_match w'"
proof -
  from call_world[OF step] obtain self where self: "deref w r = Some self"
    and w': "w' = w\<lparr>heap := (heap w)[r := snd (snd (meth self))]\<rparr>" by blast
  from self have r: "r < length (heap w)" and s: "self = heap w ! r"
    by (auto simp: deref_def split: if_splits)
  show ?thesis unfolding keys_match_def list_all_iff
  proof (intro ballI, clarify)
    fix number q assume "(number, q) \<in> set (accounts (bank w'))"
    then have "(number, q) \<in> set (accounts (bank w))" by (simp add: w')
    with inv have old: "case deref w q of None \<Rightarrow> False | Some account \<Rightarrow> account_number account = number"
      unfolding keys_match_def list_all_iff by blast
    then have q: "q < length (heap w)" and n: "account_number (heap w ! q) = number"
      by (auto simp: deref_def split: if_splits)
    show "case deref w' q of None \<Rightarrow> False | Some account \<Rightarrow> account_number account = number"
    proof (cases "q = r")
      case True
      with q n s meth[of self] show ?thesis by (simp add: w' deref_def)
    next
      case False
      with q n show ?thesis by (simp add: w' deref_def)
    qed
  qed
qed

lemma create_account_keys_match:
  assumes inv: "keys_match w" and step: "create_account holder kind initial_deposit w = Some (res, out, w')"
  shows "keys_match w'"
proof -
  from create_account_world[OF step] consider "w' = w"
    | number used where "w' = w\<lparr>heap := heap w @ [Account_init number holder kind initial_deposit],
               bank := (bank w)\<lparr>accounts := AList.update number (length (heap w)) (accounts (bank w))\<rparr>,
               drawn := used\<rparr>" by blast
  then show ?thesis
  proof cases
    case 1
    with inv show ?thesis by simp
  next
    case 2
    show ?thesis unfolding keys_match_def list_all_iff
    proof (intro ballI, clarify)
      fix n q assume "(n, q) \<in> set (accounts (bank w'))"
      then have "(n, q) \<in> set (AList.update number (length (heap w)) (accounts (bank w)))"
        by (simp add: 2)
      with update_entries have "(n, q) = (number, length (heap w)) \<or> (n, q) \<in> set (accounts (bank w))"
        by fastforce
      then show "case deref w' q of None \<Rightarrow> False | Some account \<Rightarrow> account_number account = n"
      proof
        assume "(n, q) = (number, length (heap w))"
        then show ?thesis by (simp add: 2 deref_def Account_init_def)
      next
        assume "(n, q) \<in> set (accounts (bank w))"
        with inv have "case deref w q of None \<Rightarrow> False | Some account \<Rightarrow> account_number account = n"
          unfolding keys_match_def list_all_iff by blast
        then have "q < length (heap w)" and "account_number (heap w ! q) = n"
          by (auto simp: deref_def split: if_splits)
        then show ?thesis by (simp add: 2 deref_def nth_append)
      qed
    qed
  qed
qed

lemma keys_match_fewer:
  assumes inv: "keys_match w" and h: "heap w' = heap w"
    and sub: "set (accounts (bank w')) \<subseteq> set (accounts (bank w))"
  shows "keys_match w'"
  unfolding keys_match_def list_all_iff
proof
  fix e assume "e \<in> set (accounts (bank w'))"
  with sub have "e \<in> set (accounts (bank w))" by blast
  with inv have "case e of (number, r) \<Rightarrow>
      case deref w r of None \<Rightarrow> False | Some account \<Rightarrow> account_number account = number"
    unfolding keys_match_def list_all_iff by blast
  moreover have "deref w' = deref w" by (simp add: deref_def fun_eq_iff h)
  ultimately show "case e of (number, r) \<Rightarrow>
      case deref w' r of None \<Rightarrow> False | Some account \<Rightarrow> account_number account = number"
    by simp
qed

lemma close_account_keys_match:
  assumes "keys_match w"
  shows "keys_match (snd (snd (close_account number w)))"
proof (rule keys_match_fewer [OF assms])
  show "heap (snd (snd (close_account number w))) = heap w"
    by (simp add: close_account_def)
  show "set (accounts (bank (snd (snd (close_account number w))))) \<subseteq> set (accounts (bank w))"
    using delete_entries [of number "accounts (bank w)"] by (simp add: close_account_def)
qed

lemma exec_keys_match:
  assumes "keys_match w" and "exec x w = Some w'"
  shows "keys_match w'"
proof (cases x)
  case (CreateAccount holder kind initial_deposit)
  with assms(2) obtain res out where "create_account holder kind initial_deposit w = Some (res, out, w')"
    by auto
  from create_account_keys_match[OF assms(1) this] show ?thesis .
next
  case (Deposit r amount)
  with assms(2) obtain res out where "call r (deposit amount) w = Some (res, out, w')" by auto
  from call_keys_match[OF assms(1) this] show ?thesis by (simp add: deposit_identity)
next
  case (Withdraw r amount)
  with assms(2) obtain res out where "call r (withdraw amount) w = Some (res, out, w')" by auto
  from call_keys_match[OF assms(1) this] show ?thesis by (simp add: withdraw_identity)
next
  case (GetBalance r)
  with assms(2) obtain res out
    where "call r (\<lambda>self. (get_balance self, [], self)) w = Some (res, out, w')" by auto
  from call_keys_match[OF assms(1) this] show ?thesis by simp
next
  case (FindAccount number)
  with assms show ?thesis by simp
next
  case (CloseAccount number)
  with assms(2) have "w' = snd (snd (close_account number w))" by (auto split: prod.splits)
  with close_account_keys_match[OF assms(1)] show ?thesis by simp
next
  case ListAllAccounts
  with assms show ?thesis by simp
qed

lemma run_keys_match: "keys_match w \<Longrightarrow> run ops w = Some w' \<Longrightarrow> keys_match w'"
proof (induction ops arbitrary: w)
  case Nil
  then show ?case by simp
next
  case (Cons x xs)
  from Cons.prems(2) obtain v where v: "exec x w = Some v" and rest: "run xs v = Some w'"
    by (auto split: option.splits)
  from exec_keys_match[OF Cons.prems(1) v] have "keys_match v" .
  from Cons.IH[OF this rest] show ?case .
qed

lemma start_keys_match: "keys_match (start nm ds)"
  by (simp add: keys_match_def list_all_iff start_def Bank_init_def)

subsection \<open>The concrete run, evaluated\<close>

text \<open>The roundings that the concrete runs need, computed.\<close>

lemma round64_zero: "round64 0 = Finite 0"
  by (simp add: round64_def)

lemma rounded:
  "round64 150 = Finite 150"
  "round64 100 = Finite 100"
  "round64 70 = Finite 70"
  "round64 10000000000000001 = Finite 10000000000000000"
  "round64 9999999999999999 = Finite 10000000000000000"
  by code_simp+

lemmas float_defs = zero_pyfloat_def less_pyfloat_def less_eq_pyfloat_def minus_pyfloat_def
  round64_zero rounded

lemmas model_defs = start_def Bank_init_def Account_init_def create_account_def call_def deref_def
  deposit_def withdraw_def get_balance_def close_account_def find_account_def randint_def
  demo_draws_def demo_ops_def demo_world_def alice_def bob_def Let_def float_defs

lemma demo_run: "run demo_ops (start ''Bankify'' demo_draws) = Some demo_world"
  by (simp add: model_defs generate_account_number.simps)

lemma demo_deref: "deref demo_world 0 = Some alice"
  by (simp add: deref_def demo_world_def)

lemma whale_run: "run whale_ops (start ''Bankify'' demo_draws) = Some whale_world"
  by (simp add: model_defs whale_ops_def whale_world_def whale_def generate_account_number.simps)

lemma whale_deref: "deref whale_world 0 = Some whale"
  by (simp add: deref_def whale_world_def)

subsection \<open>What the generator returns\<close>

lemma generate_account_number_result:
  assumes "generate_account_number self ds i = Some (number, used)"
  shows "number \<notin> fst ` set (accounts self) \<and> 1000000000 \<le> number \<and> number \<le> 9999999999 \<and>
         i < used"
proof -
  from generate_account_number_some_free[OF assms]
  have "\<exists>k. randint 1000000000 9999999999 (ds (i + k)) \<notin> fst ` set (accounts self)" .
  then obtain m where free: "randint 1000000000 9999999999 (ds (i + m)) \<notin> fst ` set (accounts self)"
    and least: "\<forall>j<m. \<not> randint 1000000000 9999999999 (ds (i + j)) \<notin> fst ` set (accounts self)"
    using exists_least_iff[of "\<lambda>k. randint 1000000000 9999999999 (ds (i + k)) \<notin> fst ` set (accounts self)"]
    by blast
  from least have "\<forall>j<m. randint 1000000000 9999999999 (ds (i + j)) \<in> fst ` set (accounts self)"
    by simp
  from generate_account_number_first_free[OF free this] assms
  have "number = randint 1000000000 9999999999 (ds (i + m))" and "used = Suc (i + m)" by simp_all
  with free randint_range[of "ds (i + m)"] show ?thesis by simp
qed

subsection \<open>When the generator returns\<close>

lemma generate_account_number_total:
  assumes "randint 1000000000 9999999999 (ds (i + k)) \<notin> fst ` set (accounts self)"
  shows "\<exists>number used. generate_account_number self ds i = Some (number, used)"
proof -
  from assms obtain m
    where free: "randint 1000000000 9999999999 (ds (i + m)) \<notin> fst ` set (accounts self)"
      and least: "\<forall>j<m. \<not> randint 1000000000 9999999999 (ds (i + j)) \<notin> fst ` set (accounts self)"
    using exists_least_iff[of "\<lambda>k. randint 1000000000 9999999999 (ds (i + k)) \<notin> fst ` set (accounts self)"]
    by blast
  from least have "\<forall>j<m. randint 1000000000 9999999999 (ds (i + j)) \<in> fst ` set (accounts self)"
    by simp
  from generate_account_number_first_free[OF free this] show ?thesis by blast
qed

lemma free_number_can_be_drawn:
  assumes "1000000000 \<le> number" and "number \<le> 9999999999"
  shows "randint 1000000000 9999999999 (number - 1000000000) = number"
  using assms by (simp add: randint_def)

text \<open>
  When every sample to come is an occupied number, \<open>create_account\<close> with an accepted
  deposit does not return.
\<close>

lemma create_account_no_return:
  assumes "\<not> initial_deposit < 0"
    and "\<forall>k. randint 1000000000 9999999999 (draws w (drawn w + k)) \<in> fst ` set (accounts (bank w))"
  shows "create_account holder kind initial_deposit w = None"
  using assms generate_account_number_None[of "draws w" "drawn w" "bank w"]
  by (simp add: create_account_def)

subsection \<open>Looking up a key of a matching dictionary\<close>

lemma keys_match_found:
  assumes "keys_match w" and "find_account number w = Some r"
  shows "\<exists>account. deref w r = Some account \<and> account_number account = number"
proof -
  from assms(2) have "(number, r) \<in> set (accounts (bank w))"
    unfolding find_account_def by (rule map_of_SomeD)
  with assms(1) have "case deref w r of None \<Rightarrow> False | Some account \<Rightarrow> account_number account = number"
    unfolding keys_match_def list_all_iff by blast
  then show ?thesis by (cases "deref w r") simp_all
qed

section \<open>The claims\<close>

text \<open>
  Claim C1. The claim is that no account ever has a balance other than \<open>\<ge> 0\<close>. The guards
  of the program keep every balance from going below zero (\<open>run_balances_ok\<close> above), but
  they let infinite amounts through: an account opened with 0, a deposit of \<open>inf\<close> and a
  withdrawal of \<open>inf\<close> are all accepted, since \<open>0 < inf \<le> inf\<close>, and the balance left is
  \<open>inf - inf\<close>, not-a-number, for which \<open>balance \<ge> 0\<close> is false.
\<close>

theorem infinite_withdrawal_loses_balance:
  "run infinite_ops (start ''Bankify'' demo_draws) = Some lost_world \<and>
   deref lost_world 0 = Some lost \<and>
   balance lost = NaN \<and>
   \<not> 0 \<le> balance lost"
  by (simp add: model_defs infinite_ops_def lost_world_def lost_def generate_account_number.simps)

text \<open>
  Claim C2, as amended. For every account of a bank, \<open>withdraw\<close> has three outcomes. With
  \<open>0 < amount \<le> balance\<close> it returns \<open>True\<close> and the balance becomes the float difference
  \<open>balance - amount\<close>, which for finite values is the exact difference rounded to the nearest
  float, not always the exact difference; with a positive amount above the balance it
  returns \<open>False\<close>, prints the insufficient-funds line and leaves the account as it is; with
  \<open>amount \<le> 0\<close> it returns \<open>False\<close>, prints the invalid-amount line and leaves the account
  as it is. The accounts of a bank are the objects in the store of a world that a run from a
  new bank has reached.
\<close>

theorem withdraw_three_way_rounded:
  assumes "run ops (start nm ds) = Some w" and "deref w r = Some self"
  shows "(0 < amount \<and> amount \<le> balance self \<longrightarrow>
            withdraw amount self =
              (True, [Withdrew amount (balance self - amount)],
               self\<lparr>balance := balance self - amount\<rparr>)) \<and>
         (0 < amount \<and> balance self = Finite b \<and> amount = Finite a \<longrightarrow>
            balance self - amount = round64 (b - a)) \<and>
         (0 < amount \<and> balance self < amount \<longrightarrow>
            withdraw amount self = (False, [InsufficientFunds], self)) \<and>
         (amount \<le> 0 \<longrightarrow> withdraw amount self = (False, [InvalidWithdrawalAmount], self))"
proof (intro conjI impI)
  assume "0 < amount \<and> amount \<le> balance self"
  then show "withdraw amount self =
      (True, [Withdrew amount (balance self - amount)], self\<lparr>balance := balance self - amount\<rparr>)"
    by (simp add: withdraw_def Let_def)
next
  assume "0 < amount \<and> balance self = Finite b \<and> amount = Finite a"
  then have "a \<noteq> 0" and "balance self = Finite b" and "amount = Finite a"
    by (auto simp: less_pyfloat_def zero_pyfloat_def)
  then show "balance self - amount = round64 (b - a)" by (simp add: minus_finite)
next
  assume "0 < amount \<and> balance self < amount"
  then have "\<not> amount \<le> balance self" by (simp add: less_not_less_eq)
  with \<open>0 < amount \<and> balance self < amount\<close>
  show "withdraw amount self = (False, [InsufficientFunds], self)" by (simp add: withdraw_def)
next
  assume low: "amount \<le> 0"
  from run_balances_ok[OF start_balances_ok assms(1)] have "balances_ok w" .
  moreover from assms(2) have "self \<in> set (heap w)"
    by (auto simp: deref_def split: if_splits)
  ultimately have "\<not> balance self < 0" by (simp add: balances_ok_def list_all_iff)
  with low have "\<not> balance self < amount" by (rule not_above)
  moreover from low have "\<not> 0 < amount" by (rule not_positive)
  ultimately show "withdraw amount self = (False, [InvalidWithdrawalAmount], self)"
    by (simp add: withdraw_def)
qed

theorem withdraw_three_way_rounded_witness:
  "run demo_ops (start ''Bankify'' demo_draws) = Some demo_world \<and>
   deref demo_world 0 = Some alice \<and>
   withdraw (Finite 30) alice =
     (True, [Withdrew (Finite 30) (Finite 70)], alice\<lparr>balance := Finite 70\<rparr>) \<and>
   balance alice - Finite 30 = round64 (100 - 30) \<and>
   withdraw (Finite 200) alice = (False, [InsufficientFunds], alice) \<and>
   withdraw (Finite (- 5)) alice = (False, [InvalidWithdrawalAmount], alice)"
  using withdraw_three_way_rounded [OF demo_run demo_deref, of "Finite 30" 100 30]
    withdraw_three_way_rounded [OF demo_run demo_deref, of "Finite 200"]
    withdraw_three_way_rounded [OF demo_run demo_deref, of "Finite (- 5)"]
    demo_run demo_deref
  by (simp add: alice_def float_defs)

text \<open>
  The claim as it was made fails: a withdrawal of 1 from a balance of \<open>10 ^ 16\<close> is accepted
  and leaves the balance where it was, since the float nearest to the difference is
  \<open>10 ^ 16\<close> again.
\<close>

theorem withdraw_not_exact:
  "run whale_ops (start ''Bankify'' demo_draws) = Some whale_world \<and>
   deref whale_world 0 = Some whale \<and>
   0 < Finite 1 \<and> Finite 1 \<le> balance whale \<and>
   withdraw (Finite 1) whale = (True, [Withdrew (Finite 1) (balance whale)], whale) \<and>
   exact (balance (snd (snd (withdraw (Finite 1) whale)))) \<noteq> exact (balance whale) - exact (Finite 1)"
  using whale_run whale_deref by (simp add: withdraw_def whale_def Let_def float_defs)

text \<open>
  Claim C3, as amended. \<open>deposit\<close> with a positive amount, however large and also infinite,
  returns \<open>True\<close> and the balance becomes the float sum \<open>balance + amount\<close>, which for finite
  values is the exact sum rounded to the nearest float, not always the exact sum; with
  \<open>amount \<le> 0\<close> it returns \<open>False\<close> and leaves the account as it is.
\<close>

theorem deposit_policy_rounded:
  "(0 < amount \<longrightarrow>
      deposit amount self =
        (True, [Deposited amount (balance self + amount)],
         self\<lparr>balance := balance self + amount\<rparr>)) \<and>
   (balance self = Finite b \<and> amount = Finite a \<longrightarrow> balance self + amount = round64 (b + a)) \<and>
   (amount \<le> 0 \<longrightarrow> deposit amount self = (False, [InvalidDepositAmount], self))"
  by (auto simp: deposit_def Let_def dest: not_positive)

theorem deposit_policy_rounded_witness:
  "deposit (Finite 50) alice =
     (True, [Deposited (Finite 50) (Finite 150)], alice\<lparr>balance := Finite 150\<rparr>) \<and>
   balance alice + Finite 50 = round64 (100 + 50) \<and>
   deposit PosInf alice = (True, [Deposited PosInf PosInf], alice\<lparr>balance := PosInf\<rparr>) \<and>
   deposit (Finite 0) alice = (False, [InvalidDepositAmount], alice) \<and>
   deposit (Finite (- 5)) alice = (False, [InvalidDepositAmount], alice)"
  using deposit_policy_rounded [of "Finite 50" alice 100 50]
    deposit_policy_rounded [of PosInf alice]
    deposit_policy_rounded [of "Finite 0" alice] deposit_policy_rounded [of "Finite (- 5)" alice]
  by (simp add: alice_def float_defs)

text \<open>
  The claim as it was made fails: a deposit of 1 into a balance of \<open>10 ^ 16\<close> is accepted
  and leaves the balance where it was.
\<close>

theorem deposit_not_exact:
  "0 < Finite 1 \<and>
   deposit (Finite 1) whale = (True, [Deposited (Finite 1) (balance whale)], whale) \<and>
   exact (balance (snd (snd (deposit (Finite 1) whale)))) \<noteq> exact (balance whale) + exact (Finite 1)"
  by (simp add: deposit_def whale_def Let_def float_defs)

text \<open>
  Claim C5. \<open>create_account\<close> with a negative initial deposit prints that the deposit
  cannot be negative, returns Python's \<open>None\<close> and leaves the whole world, so also the
  dictionary and the number of its entries, as it was.
\<close>

theorem create_account_negative_deposit:
  assumes "initial_deposit < 0"
  shows "create_account holder kind initial_deposit w = Some (None, [NegativeInitialDeposit], w)"
  using assms by (simp add: create_account_def)

theorem create_account_negative_deposit_witness:
  "round64 (- 1 / 100) < 0 \<and>
   create_account ''Eve'' ''Savings'' (round64 (- 1 / 100)) demo_world =
     Some (None, [NegativeInitialDeposit], demo_world)"
proof -
  have cents: "round64 (- 1 / 100) = Finite (- (5764607523034235 / 576460752303423488))"
    by code_simp
  then have "round64 (- 1 / 100) < 0" by (simp add: float_defs)
  with create_account_negative_deposit [of "round64 (- 1 / 100)" "''Eve''" "''Savings''" demo_world]
  show ?thesis by simp
qed

text \<open>
  Claim C9. On an account with a non-negative balance, a withdrawal of an amount that is
  not positive and a withdrawal of a positive amount above the balance return the same value
  \<open>False\<close> and leave the account unchanged; the two failures differ only in the printed
  line.
\<close>

theorem withdraw_failures_share_value:
  assumes "0 \<le> balance self" and "invalid \<le> 0" and "0 < excessive" and "balance self < excessive"
  shows "withdraw invalid self = (False, [InvalidWithdrawalAmount], self) \<and>
         withdraw excessive self = (False, [InsufficientFunds], self) \<and>
         fst (withdraw invalid self) = fst (withdraw excessive self)"
proof -
  from assms(1) have "\<not> balance self < 0" by (rule not_negative)
  with assms(2) have "\<not> balance self < invalid" by (rule not_above)
  moreover from assms(2) have "\<not> 0 < invalid" by (rule not_positive)
  moreover from assms(4) have "\<not> excessive \<le> balance self" by (rule less_not_less_eq)
  ultimately show ?thesis using assms(4) by (simp add: withdraw_def)
qed

theorem withdraw_failures_share_value_witness:
  "0 \<le> balance alice \<and> Finite (- 5) \<le> 0 \<and> 0 < Finite 200 \<and> balance alice < Finite 200 \<and>
   withdraw (Finite (- 5)) alice = (False, [InvalidWithdrawalAmount], alice) \<and>
   withdraw (Finite 200) alice = (False, [InsufficientFunds], alice) \<and>
   fst (withdraw (Finite (- 5)) alice) = fst (withdraw (Finite 200) alice)"
  using withdraw_failures_share_value [of alice "Finite (- 5)" "Finite 200"]
  by (simp add: alice_def float_defs)

text \<open>
  Claim C7. When the random generator delivers, at some draw still to come, a number that
  is not a key of the dictionary (which needs some number of the range to be free),
  \<open>_generate_account_number\<close> returns, and what it returns lies between 1000000000 and
  9999999999 and is not a key of the dictionary.
\<close>

theorem generate_account_number_returns:
  assumes "randint 1000000000 9999999999 (ds (i + k)) \<notin> fst ` set (accounts self)"
  shows "\<exists>number used. generate_account_number self ds i = Some (number, used) \<and>
           1000000000 \<le> number \<and> number \<le> 9999999999 \<and>
           number \<notin> fst ` set (accounts self)"
proof -
  from generate_account_number_total[where ds = ds and i = i and k = k, OF assms] obtain number used
    where gen: "generate_account_number self ds i = Some (number, used)" by blast
  from generate_account_number_result[OF gen] gen show ?thesis by blast
qed

theorem generate_account_number_returns_witness:
  "randint 1000000000 9999999999 (demo_draws (0 + 3)) \<notin> fst ` set (accounts (bank demo_world)) \<and>
   generate_account_number (bank demo_world) demo_draws 0 = Some (1000000003, 4)"
  using generate_account_number_returns [of demo_draws 0 3 "bank demo_world"]
  by (simp add: generate_account_number.simps randint_def demo_draws_def demo_world_def)

text \<open>
  Claim C4. \<open>create_account\<close> with an initial deposit that is not negative, under a
  generator that delivers a free number at some draw still to come, returns a new account
  object. Its number was not a key before the call; the dictionary after the call is the old
  one with the one entry for that number added, and the store is the old one with the one
  new object added; \<open>find_account\<close> on the number gives that object, whose holder name,
  account type and balance are the ones given.
\<close>

theorem create_account_adds_one:
  assumes "0 \<le> initial_deposit"
    and "randint 1000000000 9999999999 (draws w (drawn w + k)) \<notin> fst ` set (accounts (bank w))"
  shows "\<exists>number r out w'.
           create_account holder kind initial_deposit w = Some (Some r, out, w') \<and>
           number \<notin> fst ` set (accounts (bank w)) \<and>
           accounts (bank w') = accounts (bank w) @ [(number, r)] \<and>
           heap w' = heap w @ [Account_init number holder kind initial_deposit] \<and>
           find_account number w' = Some r \<and>
           deref w' r = Some (Account_init number holder kind initial_deposit) \<and>
           account_number (Account_init number holder kind initial_deposit) = number \<and>
           name (Account_init number holder kind initial_deposit) = holder \<and>
           account_type (Account_init number holder kind initial_deposit) = kind \<and>
           balance (Account_init number holder kind initial_deposit) = initial_deposit"
proof -
  from generate_account_number_total[where ds = "draws w" and i = "drawn w" and k = k, OF assms(2)] obtain number used
    where gen: "generate_account_number (bank w) (draws w) (drawn w) = Some (number, used)"
    by blast
  from generate_account_number_result[OF gen]
  have fresh: "number \<notin> fst ` set (accounts (bank w))" by simp
  define r where "r = length (heap w)"
  define new_account where "new_account = Account_init number holder kind initial_deposit"
  define w' where "w' = w\<lparr>heap := heap w @ [new_account],
    bank := (bank w)\<lparr>accounts := AList.update number r (accounts (bank w))\<rparr>, drawn := used\<rparr>"
  from assms(1) have "\<not> initial_deposit < 0" by (rule not_negative)
  with gen
  have created: "create_account holder kind initial_deposit w =
      Some (Some r, [AccountCreated holder number], w')"
    by (simp add: create_account_def Let_def w'_def r_def new_account_def)
  have entries: "accounts (bank w') = accounts (bank w) @ [(number, r)]"
    by (simp add: w'_def update_fresh[OF fresh])
  have store: "heap w' = heap w @ [new_account]" by (simp add: w'_def)
  have found: "find_account number w' = Some r"
    unfolding find_account_def entries by (rule map_of_fresh_append[OF fresh])
  have object: "deref w' r = Some new_account"
    by (simp add: deref_def store r_def)
  have fields: "account_number new_account = number \<and> name new_account = holder \<and>
      account_type new_account = kind \<and> balance new_account = initial_deposit"
    by (simp add: new_account_def Account_init_def)
  from created fresh entries store found object fields show ?thesis
    unfolding new_account_def by blast
qed

theorem create_account_adds_one_witness:
  "(0 :: pyfloat) \<le> 0 \<and>
   randint 1000000000 9999999999 (draws demo_world (drawn demo_world + 0))
     \<notin> fst ` set (accounts (bank demo_world)) \<and>
   create_account ''Carol'' ''Savings'' 0 demo_world =
     Some (Some 2, [AccountCreated ''Carol'' 1000000003],
       demo_world\<lparr>heap := [alice, bob, Account_init 1000000003 ''Carol'' ''Savings'' 0],
         bank := \<lparr>bank_name = ''Bankify'',
                  accounts = [(1000000000, 0), (1000000002, 1), (1000000003, 2)]\<rparr>,
         drawn := 4\<rparr>)"
  using create_account_adds_one [of 0 demo_world 0 "''Carol''" "''Savings''"]
  by (simp add: create_account_def generate_account_number.simps randint_def demo_draws_def
      demo_world_def Let_def float_defs)

text \<open>
  Claim C6. \<open>close_account\<close> on a number that is a key returns \<open>True\<close> and removes the key:
  a later \<open>find_account\<close> on it finds nothing, every other key still leads where it led,
  and no object is touched. On a number that is not a key it returns \<open>False\<close>, prints that
  the account was not found and leaves the world as it was.
\<close>

theorem close_account_policy:
  "(number \<in> fst ` set (accounts (bank w)) \<longrightarrow>
      (\<exists>w'. close_account number w = (True, [AccountClosed number], w') \<and>
            number \<notin> fst ` set (accounts (bank w')) \<and>
            find_account number w' = None \<and>
            (\<forall>other. other \<noteq> number \<longrightarrow> find_account other w' = find_account other w) \<and>
            heap w' = heap w)) \<and>
   (number \<notin> fst ` set (accounts (bank w)) \<longrightarrow>
      close_account number w = (False, [AccountNotFound], w))"
proof (intro conjI impI)
  assume present: "number \<in> fst ` set (accounts (bank w))"
  define w' where "w' = w\<lparr>bank := (bank w)\<lparr>accounts := AList.delete number (accounts (bank w))\<rparr>\<rparr>"
  from present have "close_account number w = (True, [AccountClosed number], w')"
    by (simp add: close_account_def w'_def)
  moreover have lookup: "find_account k w' = ((map_of (accounts (bank w)))(number := None)) k" for k
    by (simp add: find_account_def w'_def delete_conv')
  then have "find_account number w' = None" by simp
  moreover from this have "number \<notin> fst ` set (accounts (bank w'))"
    by (simp add: find_account_def map_of_eq_None_iff)
  moreover from lookup have "\<forall>other. other \<noteq> number \<longrightarrow> find_account other w' = find_account other w"
    by (simp add: find_account_def)
  moreover have "heap w' = heap w" by (simp add: w'_def)
  ultimately show "\<exists>w'. close_account number w = (True, [AccountClosed number], w') \<and>
            number \<notin> fst ` set (accounts (bank w')) \<and>
            find_account number w' = None \<and>
            (\<forall>other. other \<noteq> number \<longrightarrow> find_account other w' = find_account other w) \<and>
            heap w' = heap w" by blast
next
  assume "number \<notin> fst ` set (accounts (bank w))"
  then show "close_account number w = (False, [AccountNotFound], w)"
    by (simp add: close_account_def)
qed

theorem close_account_policy_witness:
  "1000000000 \<in> fst ` set (accounts (bank demo_world)) \<and>
   close_account 1000000000 demo_world =
     (True, [AccountClosed 1000000000],
      demo_world\<lparr>bank := \<lparr>bank_name = ''Bankify'', accounts = [(1000000002, 1)]\<rparr>\<rparr>) \<and>
   find_account 1000000000
     (demo_world\<lparr>bank := \<lparr>bank_name = ''Bankify'', accounts = [(1000000002, 1)]\<rparr>\<rparr>) = None \<and>
   1000000005 \<notin> fst ` set (accounts (bank demo_world)) \<and>
   close_account 1000000005 demo_world = (False, [AccountNotFound], demo_world)"
  using close_account_policy [of 1000000000 demo_world] close_account_policy [of 1000000005 demo_world]
  by (simp add: close_account_def find_account_def demo_world_def)

text \<open>
  Claim C8. In every world that a run from a new bank reaches, a key of the dictionary leads
  to an object whose \<open>account_number\<close> is that key. Every single operation, whichever it
  is, keeps that property.
\<close>

theorem keys_equal_account_numbers:
  "(run ops (start nm ds) = Some w \<and> find_account number w = Some r \<longrightarrow>
      (\<exists>account. deref w r = Some account \<and> account_number account = number)) \<and>
   (run ops (start nm ds) = Some w \<longrightarrow> keys_match w) \<and>
   (keys_match v \<and> exec x v = Some v' \<longrightarrow> keys_match v')"
proof (intro conjI impI)
  assume "run ops (start nm ds) = Some w \<and> find_account number w = Some r"
  then have reach: "run ops (start nm ds) = Some w" and found: "find_account number w = Some r"
    by simp_all
  from run_keys_match[OF start_keys_match reach] have "keys_match w" .
  from keys_match_found[OF this found]
  show "\<exists>account. deref w r = Some account \<and> account_number account = number" .
next
  assume "run ops (start nm ds) = Some w"
  from run_keys_match[OF start_keys_match this] show "keys_match w" .
next
  assume "keys_match v \<and> exec x v = Some v'"
  then show "keys_match v'" using exec_keys_match by blast
qed

theorem keys_equal_account_numbers_witness:
  "run demo_ops (start ''Bankify'' demo_draws) = Some demo_world \<and>
   find_account 1000000002 demo_world = Some 1 \<and>
   deref demo_world 1 = Some bob \<and> account_number bob = 1000000002 \<and>
   keys_match demo_world \<and>
   exec (CloseAccount 1000000000) demo_world =
     Some (demo_world\<lparr>bank := \<lparr>bank_name = ''Bankify'', accounts = [(1000000002, 1)]\<rparr>\<rparr>) \<and>
   keys_match (demo_world\<lparr>bank := \<lparr>bank_name = ''Bankify'', accounts = [(1000000002, 1)]\<rparr>\<rparr>)"
  using keys_equal_account_numbers [where ops = demo_ops and nm = "''Bankify''" and ds = demo_draws
      and w = demo_world and number = 1000000002 and r = 1 and v = demo_world
      and x = "CloseAccount 1000000000"
      and v' = "demo_world\<lparr>bank := \<lparr>bank_name = ''Bankify'', accounts = [(1000000002, 1)]\<rparr>\<rparr>"]
    demo_run
  by (simp add: keys_match_def find_account_def deref_def close_account_def demo_world_def
      alice_def bob_def)

text \<open>
  Claim C10. A \<open>deposit\<close> or \<open>withdraw\<close> called on an account object of a bank, whatever
  it returns, leaves the number, the holder name and the type of that object as they were,
  leaves the dictionary as it was and leaves every other object of the store as it was. The
  accounts under the other keys of the dictionary are other objects, so they are unchanged.
\<close>

theorem deposit_withdraw_frame:
  assumes "run ops (start nm ds) = Some w"
    and "meth = deposit amount \<or> meth = withdraw amount"
    and "call r meth w = Some (res, out, w')"
  shows "(\<exists>self self'. deref w r = Some self \<and> deref w' r = Some self' \<and>
            account_number self' = account_number self \<and> name self' = name self \<and>
            account_type self' = account_type self) \<and>
         bank w' = bank w \<and>
         (\<forall>r'. r' \<noteq> r \<longrightarrow> deref w' r' = deref w r') \<and>
         (\<forall>number number' r'.
            find_account number w = Some r \<and> number' \<noteq> number \<and> find_account number' w = Some r'
              \<longrightarrow> r' \<noteq> r \<and> find_account number' w' = Some r' \<and> deref w' r' = deref w r')"
proof -
  from call_world[OF assms(3)] obtain self where self: "deref w r = Some self"
    and w': "w' = w\<lparr>heap := (heap w)[r := snd (snd (meth self))]\<rparr>" by blast
  from self have r: "r < length (heap w)" by (simp add: deref_def split: if_splits)
  from assms(2) have same: "account_number (snd (snd (meth self))) = account_number self \<and>
      name (snd (snd (meth self))) = name self \<and>
      account_type (snd (snd (meth self))) = account_type self"
    using deposit_identity withdraw_identity by blast
  from r have after: "deref w' r = Some (snd (snd (meth self)))"
    by (simp add: w' deref_def)
  have mapping: "bank w' = bank w" by (simp add: w')
  have others: "deref w' r' = deref w r'" if "r' \<noteq> r" for r'
    using that by (simp add: w' deref_def)
  from run_keys_match[OF start_keys_match assms(1)] have inv: "keys_match w" .
  have apart: "r' \<noteq> r \<and> find_account number' w' = Some r' \<and> deref w' r' = deref w r'"
    if "find_account number w = Some r" and "number' \<noteq> number" and "find_account number' w = Some r'"
    for number number' r'
  proof -
    from keys_match_found[OF inv that(1)] self have "account_number self = number" by simp
    moreover from keys_match_found[OF inv that(3)] obtain other
      where "deref w r' = Some other" and "account_number other = number'" by blast
    ultimately have "r' \<noteq> r" using that(2) self by auto
    with others[of r'] that(3) show ?thesis by (simp add: find_account_def mapping)
  qed
  from self after same mapping others apart show ?thesis by blast
qed

theorem deposit_withdraw_frame_witness:
  "run demo_ops (start ''Bankify'' demo_draws) = Some demo_world \<and>
   call 0 (deposit (Finite 50)) demo_world =
     Some (True, [Deposited (Finite 50) (Finite 150)],
       demo_world\<lparr>heap := [alice\<lparr>balance := Finite 150\<rparr>, bob]\<rparr>) \<and>
   deref demo_world 0 = Some alice \<and>
   deref (demo_world\<lparr>heap := [alice\<lparr>balance := Finite 150\<rparr>, bob]\<rparr>) 0 =
     Some (alice\<lparr>balance := Finite 150\<rparr>) \<and>
   find_account 1000000000 demo_world = Some 0 \<and>
   find_account 1000000002 demo_world = Some 1 \<and>
   deref (demo_world\<lparr>heap := [alice\<lparr>balance := Finite 150\<rparr>, bob]\<rparr>) 1 = deref demo_world 1"
  using deposit_withdraw_frame [where ops = demo_ops and nm = "''Bankify''" and ds = demo_draws
      and w = demo_world and meth = "deposit (Finite 50)" and amount = "Finite 50" and r = 0
      and res = True and out = "[Deposited (Finite 50) (Finite 150)]"
      and w' = "demo_world\<lparr>heap := [alice\<lparr>balance := Finite 150\<rparr>, bob]\<rparr>"]
    demo_run
  by (simp add: call_def deref_def deposit_def find_account_def demo_world_def alice_def Let_def
      float_defs)

end
